theory Spec2Isabelle
  imports Main "HOL-Library.AList"
begin

section \<open>The BatterX device module (packages/modules/devices/batterx/device.py)\<close>

text \<open>
  The module defines the class \<open>Device\<close> (constructor, \<open>add_component\<close>, \<open>update\<close>), the
  procedural entry point \<open>read_legacy\<close> and its helper \<open>_add_component\<close>. Everything the
  module imports (the configuration classes, \<open>dataclass_from_dict\<close>, the component
  classes, the HTTP session, the value store, the update context) lives in other files;
  those collaborators appear below as the fields of an environment record, so that every
  statement holds for whatever they do.
\<close>

subsection \<open>Values, errors, configurations\<close>

text \<open>A value stored in an untyped configuration dict (a hashable scalar).\<close>

datatype field = FNone | FInt int | FStr string

text \<open>
  Exceptions. \<open>KeyError\<close> carries the key that was looked up, \<open>Exception\<close> is the plain
  \<open>raise Exception(msg)\<close> of the module, \<open>ExternalError\<close> is any exception of a
  collaborator that derives from \<open>Exception\<close>, and \<open>BaseException\<close> one that does not
  (such as KeyboardInterrupt), which an \<open>except Exception\<close> clause lets through.
\<close>

datatype error =
    KeyError field
  | AttributeError string
  | RuntimeError string
  | Exception string
  | ExternalError string
  | BaseException string

fun is_Exception :: "error \<Rightarrow> bool" where
  "is_Exception (BaseException m) = False"
| "is_Exception e = True"

text \<open>The device configuration \<open>BatterX\<close>: name, id and \<open>configuration.ip_address\<close>.\<close>

record batterx =
  bx_name :: string
  bx_id :: int
  bx_ip_address :: string

text \<open>
  A component configuration (\<open>BatterXBatSetup\<close>, \<open>BatterXCounterSetup\<close>,
  \<open>BatterXInverterSetup\<close>, ...): the fields the module reads are \<open>type\<close> and \<open>id\<close>;
  \<open>read_legacy\<close> passes an \<open>Optional[int]\<close> as id.
\<close>

record batterx_setup =
  setup_name :: string
  setup_type :: string
  setup_id :: "int option"

text \<open>A configuration arrives as a dict or as an object (\<open>Union[Dict, ...]\<close>).\<close>

datatype 'a cfg_input = AsDict "string \<rightharpoonup> field" | AsObject 'a

text \<open>The four component modules and the three component classes the Device can build.\<close>

datatype module = bat | counter | inverter | external_inverter

datatype component_class = BatterXBat | BatterXCounter | BatterXInverter

text \<open>A component instance: its class and the constructor arguments it was built from.\<close>

record component =
  comp_class :: component_class
  comp_device_id :: int
  comp_config :: batterx_setup

text \<open>A decoded JSON document (the result of \<open>.json()\<close>).\<close>

datatype json = JNull | JNum int | JStr string | JArr "json list" | JObj "(string \<times> json) list"

text \<open>The state written to the inverter value store.\<close>

record inverter_state =
  state_power :: int
  state_exported :: int

text \<open>
  A Device object. Python dicts keep insertion order and an assignment to an existing key
  keeps the key's position, so \<open>components\<close> is an association list changed with
  \<open>AList.update\<close>.
\<close>

record device =
  components :: "(string \<times> component) list"
  device_config :: batterx

subsection \<open>The collaborators\<close>

text \<open>
  \<^item> \<open>dataclass_from_dict_device\<close>: \<open>dataclass_from_dict(BatterX, device_config)\<close>;
  \<^item> \<open>dataclass_from_dict\<close>: \<open>dataclass_from_dict(module.component_descriptor.configuration_factory, cfg)\<close>;
  \<^item> \<open>configuration_factory\<close>: \<open>module.component_descriptor.configuration_factory()\<close>;
  \<^item> \<open>BatterX_default\<close>: \<open>BatterX()\<close>;
  \<^item> \<open>component_init\<close>: the exception a component class's constructor raises, if any;
  \<^item> \<open>http_get_json\<close>: \<open>req.get_http_session().get(url, timeout=t).json()\<close>;
  \<^item> \<open>component_update\<close>: the exception \<open>component.update(payload)\<close> raises, if any;
  \<^item> \<open>get_power\<close>, \<open>get_inverter_state\<close>: the component methods of these names;
  \<^item> \<open>repr_components\<close>: \<open>str(self.components)\<close>.
\<close>

record env =
  dataclass_from_dict_device :: "batterx cfg_input \<Rightarrow> error + batterx"
  dataclass_from_dict :: "module \<Rightarrow> batterx_setup cfg_input \<Rightarrow> error + batterx_setup"
  configuration_factory :: "module \<Rightarrow> batterx_setup"
  BatterX_default :: batterx
  component_init :: "component_class \<Rightarrow> int \<Rightarrow> batterx_setup \<Rightarrow> error option"
  http_get_json :: "string \<Rightarrow> nat \<Rightarrow> error + json"
  component_update :: "component \<Rightarrow> json \<Rightarrow> error option"
  get_power :: "component \<Rightarrow> json \<Rightarrow> error + int"
  get_inverter_state :: "component \<Rightarrow> int \<Rightarrow> error + inverter_state"
  repr_components :: "(string \<times> component) list \<Rightarrow> string"

subsection \<open>Strings: \<open>str\<close> and \<open>join\<close>\<close>

definition digit_char :: "nat \<Rightarrow> char" where
  "digit_char n = ''0123456789'' ! n"

fun digits :: "nat \<Rightarrow> string" where
  "digits n = (if n < 10 then [digit_char n] else digits (n div 10) @ [digit_char (n mod 10)])"

declare digits.simps [simp del]

text \<open>Python's \<open>str\<close> on an int and on an \<open>Optional[int]\<close>.\<close>

definition str_int :: "int \<Rightarrow> string" where
  "str_int i = (if i < 0 then CHR ''-'' # digits (nat (- i)) else digits (nat i))"

fun str :: "int option \<Rightarrow> string" where
  "str None = ''None''"
| "str (Some i) = str_int i"

text \<open>\<open>sep.join(xs)\<close>.\<close>

fun join :: "string \<Rightarrow> string list \<Rightarrow> string" where
  "join sep [] = []"
| "join sep [x] = x"
| "join sep (x # y # ys) = x @ sep @ join sep (y # ys)"

subsection \<open>The registries\<close>

definition COMPONENT_TYPE_TO_CLASS :: "(string \<times> component_class) list" where
  "COMPONENT_TYPE_TO_CLASS =
     [(''bat'', BatterXBat), (''counter'', BatterXCounter), (''inverter'', BatterXInverter)]"

definition COMPONENT_TYPE_TO_MODULE :: "(string \<times> module) list" where
  "COMPONENT_TYPE_TO_MODULE =
     [(''bat'', bat), (''counter'', counter), (''inverter'', inverter),
      (''external_inverter'', external_inverter)]"

text \<open>
  \<open>table[key]\<close> for a table with string keys: a key that is not a string equals none of
  them.
\<close>

definition lookup_tag :: "(string \<times> 'a) list \<Rightarrow> field \<Rightarrow> 'a option" where
  "lookup_tag tbl v = (case v of FStr s \<Rightarrow> map_of tbl s | _ \<Rightarrow> None)"

text \<open>
  The message of the \<open>raise Exception(...)\<close> of \<open>add_component\<close> and of
  \<open>_add_component\<close>, for the table whose keys are listed.
\<close>

definition illegal_component_type :: "string \<Rightarrow> (string \<times> 'a) list \<Rightarrow> string" where
  "illegal_component_type component_type tbl =
     ''illegal component type '' @ component_type @ ''. Allowed values: '' @
     join '','' (map fst tbl)"

subsection \<open>\<open>Device.__init__\<close>\<close>

text \<open>
  The object while the constructor runs: an attribute is \<open>None\<close> until it is assigned.
  \<open>AbstractDevice\<close> declares abstract methods only, so an attribute the constructor has
  not assigned does not exist.
\<close>

record self_obj =
  attr_components :: "(string \<times> component) list option"
  attr_device_config :: "batterx option"

datatype event =
    LogDebug string
  | LogWarning string
  | LogException string
  | Acquire string
  | Fetch string nat
  | Update string json
  | GetPower string json
  | GetInverterState string int
  | StoreSet "int option" inverter_state
  | Release string "error option"

text \<open>
  \<open>self.components = {}\<close>, then the \<open>try\<close>. The assignment to \<open>self.device_config\<close>
  happens only when \<open>dataclass_from_dict\<close> returns. The handler of \<open>except Exception\<close>
  evaluates \<open>self.device_config.name\<close> before it can log; were the attribute there, the
  handler would log and the constructor would return the object as it is.
\<close>

definition Device_init :: "env \<Rightarrow> batterx cfg_input \<Rightarrow> (error + self_obj) \<times> event list" where
  "Device_init E cfg =
     (let self = \<lparr>attr_components = Some [], attr_device_config = None\<rparr> in
      case dataclass_from_dict_device E cfg of
        Inr c \<Rightarrow> (Inr (self\<lparr>attr_device_config := Some c\<rparr>), [])
      | Inl e \<Rightarrow>
          if is_Exception e then
            (case attr_device_config self of
               None \<Rightarrow> (Inl (AttributeError ''device_config''), [])
             | Some c \<Rightarrow> (Inr self, [LogException (''Fehler im Modul '' @ bx_name c)]))
          else (Inl e, []))"

text \<open>
  The methods below run on a constructed object; they read both attributes. A method
  called on an object without the attribute raises \<open>AttributeError\<close>.
\<close>

definition the_device :: "self_obj \<Rightarrow> error + device" where
  "the_device self =
     (case attr_components self of
        None \<Rightarrow> Inl (AttributeError ''components'')
      | Some cs \<Rightarrow>
          (case attr_device_config self of
             None \<Rightarrow> Inl (AttributeError ''device_config'')
           | Some c \<Rightarrow> Inr \<lparr>components = cs, device_config = c\<rparr>))"

subsection \<open>\<open>Device.add_component\<close>\<close>

text \<open>
  The result is the outcome together with the Device after the call, also when the call
  raises. Order of evaluation, as in the source: the type tag is read from the
  configuration as it arrives; \<open>COMPONENT_TYPE_TO_MODULE[component_type]\<close> is evaluated
  (an argument of the call) before \<open>dataclass_from_dict\<close> runs; in the assignment the
  constructor call on the right is evaluated before the key on the left, and the store
  is the last step.
\<close>

definition add_component :: "env \<Rightarrow> device \<Rightarrow> batterx_setup cfg_input \<Rightarrow> (error + unit) \<times> device" where
  "add_component E self component_config =
     (case (case component_config of
              AsDict d \<Rightarrow> (case d ''type'' of None \<Rightarrow> Inl (KeyError (FStr ''type'')) | Some v \<Rightarrow> Inr v)
            | AsObject s \<Rightarrow> Inr (FStr (setup_type s))) of
        Inl e \<Rightarrow> (Inl e, self)
      | Inr component_type \<Rightarrow>
          (case lookup_tag COMPONENT_TYPE_TO_MODULE component_type of
             None \<Rightarrow> (Inl (KeyError component_type), self)
           | Some m \<Rightarrow>
               (case dataclass_from_dict E m component_config of
                  Inl e \<Rightarrow> (Inl e, self)
                | Inr cfg \<Rightarrow>
                    (case lookup_tag COMPONENT_TYPE_TO_CLASS component_type of
                       Some cls \<Rightarrow>
                         (case component_init E cls (bx_id (device_config self)) cfg of
                            Some e \<Rightarrow> (Inl e, self)
                          | None \<Rightarrow>
                              (Inr (),
                               self\<lparr>components :=
                                 AList.update (''component'' @ str (setup_id cfg))
                                   \<lparr>comp_class = cls, comp_device_id = bx_id (device_config self),
                                    comp_config = cfg\<rparr>
                                   (components self)\<rparr>))
                     | None \<Rightarrow>
                         (Inl (Exception
                            (illegal_component_type
                               (case component_type of FStr s \<Rightarrow> s | _ \<Rightarrow> [])
                               COMPONENT_TYPE_TO_CLASS)),
                          self)))))"

text \<open>\<open>Device(device_config)\<close> as the caller sees it: the constructed object, or the exception.\<close>

definition Device :: "env \<Rightarrow> batterx cfg_input \<Rightarrow> (error + device) \<times> event list" where
  "Device E cfg =
     (case Device_init E cfg of
        (Inl e, t) \<Rightarrow> (Inl e, t)
      | (Inr self, t) \<Rightarrow> (the_device self, t))"

subsection \<open>The update context\<close>

text \<open>
  Modelled from the spec: \<open>MultiComponentUpdateContext\<close> (modules.common.component_context)
  is not part of the module. The spec's update transaction acquires one slot per
  component on entry, and on exit releases every acquired slot exactly once, reporting
  success or the captured failure; cycle-time errors are contained in the transaction and
  not thrown further. The \<open>with\<close> statement hands \<open>__exit__\<close> the exception that left the
  body (or none), and no more than that.
\<close>

definition mcuc_enter :: "(string \<times> component) list \<Rightarrow> event list" where
  "mcuc_enter cs = map (\<lambda>kc. Acquire (fst kc)) cs"

text \<open>
  Modelled from the spec: \<open>__exit__\<close> of the same class. It releases the slots acquired on
  entry, each with the outcome of the body, and returns true, so that the exception does
  not leave the \<open>with\<close> statement.
\<close>

definition mcuc_exit :: "string list \<Rightarrow> error option \<Rightarrow> bool \<times> event list" where
  "mcuc_exit slots exc = (True, map (\<lambda>k. Release k exc) slots)"

text \<open>
  \<open>with MultiComponentUpdateContext(cs): body\<close>. The body runs between entry and exit; an
  exception of the body ends the body there, reaches \<open>__exit__\<close>, and leaves the statement
  unless \<open>__exit__\<close> returns true.
\<close>

definition with_context ::
  "(string \<times> component) list \<Rightarrow> (error + unit) \<times> event list \<Rightarrow> (error + unit) \<times> event list" where
  "with_context cs body =
     (case body of (r, t) \<Rightarrow>
        (case mcuc_exit (map fst cs) (case r of Inl e \<Rightarrow> Some e | Inr u \<Rightarrow> None) of
           (suppress, t') \<Rightarrow>
             ((case r of Inl e \<Rightarrow> if suppress then Inr () else Inl e | Inr u \<Rightarrow> Inr u),
              mcuc_enter cs @ t @ t')))"

subsection \<open>\<open>Device.update\<close>\<close>

text \<open>
  \<open>req.get_http_session().get('http://' + ip_address + '/api.php?get=currentstate',
  timeout=5).json()\<close>
\<close>

definition fetch :: "env \<Rightarrow> string \<Rightarrow> (error + json) \<times> event list" where
  "fetch E ip_address =
     (let url = ''http://'' @ ip_address @ ''/api.php?get=currentstate''
      in (http_get_json E url 5, [Fetch url 5]))"

text \<open>
  \<open>for component in self.components: self.components[component].update(resp_json)\<close>.
  The keys of a dict are unique, so the value read under a key is the entry's own. There
  is no \<open>try\<close> in the loop: an exception of one \<open>update\<close> ends the loop.
\<close>

fun dispatch :: "env \<Rightarrow> (string \<times> component) list \<Rightarrow> json \<Rightarrow> (error + unit) \<times> event list" where
  "dispatch E [] resp_json = (Inr (), [])"
| "dispatch E ((k, c) # rest) resp_json =
     (case component_update E c resp_json of
        Some e \<Rightarrow> (Inl e, [Update k resp_json])
      | None \<Rightarrow>
          (case dispatch E rest resp_json of
             (r, t) \<Rightarrow> (r, Update k resp_json # t)))"

definition not_configured :: "string \<Rightarrow> string" where
  "not_configured name =
     name @ '': Es konnten keine Werte gelesen werden, da noch keine Komponenten konfiguriert wurden.''"

definition update :: "env \<Rightarrow> device \<Rightarrow> (error + unit) \<times> event list" where
  "update E self =
     (let start = [LogDebug (''Start device reading '' @ repr_components E (components self))] in
      if components self \<noteq> [] then
        (case with_context (components self)
                (case fetch E (bx_ip_address (device_config self)) of
                   (Inl e, t) \<Rightarrow> (Inl e, t)
                 | (Inr resp_json, t) \<Rightarrow>
                     (case dispatch E (components self) resp_json of
                        (r, t') \<Rightarrow> (r, t @ t'))) of
           (r, t) \<Rightarrow> (r, start @ t))
      else (Inr (), start @ [LogWarning (not_configured (bx_name (device_config self)))]))"

text \<open>Classifying the events of a run.\<close>

fun is_Fetch :: "event \<Rightarrow> bool" where
  "is_Fetch (Fetch url timeout) = True"
| "is_Fetch ev = False"

fun is_Update :: "event \<Rightarrow> bool" where
  "is_Update (Update k p) = True"
| "is_Update ev = False"

fun is_StoreSet :: "event \<Rightarrow> bool" where
  "is_StoreSet (StoreSet n s) = True"
| "is_StoreSet ev = False"

fun is_Release :: "event \<Rightarrow> bool" where
  "is_Release (Release k r) = True"
| "is_Release ev = False"

text \<open>The payload a component method was called with, for the events that are such calls.\<close>

fun payload_of :: "event \<Rightarrow> json option" where
  "payload_of (Update k p) = Some p"
| "payload_of (GetPower k p) = Some p"
| "payload_of ev = None"

subsection \<open>The derived inverter state\<close>

text \<open>
  Modelled from the spec: \<open>get_inverter_state\<close> is a method of the inverter component,
  which is not part of the module. The spec's contract for the combining step is a pure
  function (deterministic, no I/O, no hidden state), so the method is a function of the
  component and the power it is given. What the module itself fixes is how the two
  readings reach it, \<open>state = component.get_inverter_state(power+power_ext)\<close>: they are
  added, and the sum is the only argument. Readings are Python ints.
\<close>

definition combine :: "env \<Rightarrow> component \<Rightarrow> int \<Rightarrow> int \<Rightarrow> error + inverter_state" where
  "combine E component power' power_ext = get_inverter_state E component (power' + power_ext)"

subsection \<open>\<open>_add_component\<close> and \<open>read_legacy\<close>\<close>

text \<open>\<open>_add_component(dev, component_type, num)\<close>; the Device is changed in place.\<close>

definition legacy_add_component ::
  "env \<Rightarrow> device \<Rightarrow> string \<Rightarrow> int option \<Rightarrow> (error + unit) \<times> device" where
  "legacy_add_component E dev component_type num =
     (case map_of COMPONENT_TYPE_TO_MODULE component_type of
        Some m \<Rightarrow> add_component E dev (AsObject ((configuration_factory E m)\<lparr>setup_id := num\<rparr>))
      | None \<Rightarrow>
          (Inl (Exception (illegal_component_type component_type COMPONENT_TYPE_TO_MODULE)), dev))"

text \<open>The part of \<open>read_legacy\<close> before the update context: the Device and its components.\<close>

definition legacy_setup ::
  "env \<Rightarrow> string \<Rightarrow> string \<Rightarrow> int option \<Rightarrow> string option \<Rightarrow> string option \<Rightarrow>
   (error + device) \<times> event list" where
  "legacy_setup E component_type ip_address num evu_counter bat_module =
     (case Device E (AsObject ((BatterX_default E)\<lparr>bx_ip_address := ip_address\<rparr>)) of
        (Inl e, t) \<Rightarrow> (Inl e, t)
      | (Inr dev, t) \<Rightarrow>
          (case legacy_add_component E dev component_type num of
             (Inl e, dev1) \<Rightarrow> (Inl e, t)
           | (Inr u, dev1) \<Rightarrow>
               (case (if evu_counter = Some ''bezug_batterx''
                      then legacy_add_component E dev1 ''counter'' (Some 0)
                      else (Inr (), dev1)) of
                  (Inl e, dev2) \<Rightarrow> (Inl e, t)
                | (Inr u, dev2) \<Rightarrow>
                    (case (if bat_module = Some ''speicher_batterx''
                           then legacy_add_component E dev2 ''bat'' (Some 3)
                           else (Inr (), dev2)) of
                       (Inl e, dev3) \<Rightarrow> (Inl e, t)
                     | (Inr u, dev3) \<Rightarrow> (Inr dev3, t)))))"

text \<open>
  The body of the loop of \<open>read_legacy\<close> for one component: the outcome, the Device after
  it and the events. A component of none of the three classes is passed over.
\<close>

definition legacy_step ::
  "env \<Rightarrow> int option \<Rightarrow> int \<Rightarrow> json \<Rightarrow> device \<Rightarrow> string \<Rightarrow> component \<Rightarrow>
   (error + unit) \<times> device \<times> event list" where
  "legacy_step E num ext_inverter resp_json dev k component =
     (if comp_class component = BatterXBat \<or> comp_class component = BatterXCounter then
        (case component_update E component resp_json of
           Some e \<Rightarrow> (Inl e, dev, [Update k resp_json])
         | None \<Rightarrow> (Inr (), dev, [Update k resp_json]))
      else if comp_class component = BatterXInverter then
        (if ext_inverter = 0 then
           (case component_update E component resp_json of
              Some e \<Rightarrow> (Inl e, dev, [Update k resp_json])
            | None \<Rightarrow> (Inr (), dev, [Update k resp_json]))
         else
           (case legacy_add_component E dev ''external_inverter'' (Some 4) of
              (Inl e, dev') \<Rightarrow> (Inl e, dev', [])
            | (Inr u, dev') \<Rightarrow>
                (case get_power E component resp_json of
                   Inl e \<Rightarrow> (Inl e, dev', [GetPower k resp_json])
                 | Inr power' \<Rightarrow>
                     (case map_of (components dev') ''component4'' of
                        None \<Rightarrow> (Inl (KeyError (FStr ''component4'')), dev', [GetPower k resp_json])
                      | Some c4 \<Rightarrow>
                          (case get_power E c4 resp_json of
                             Inl e \<Rightarrow>
                               (Inl e, dev',
                                [GetPower k resp_json, GetPower ''component4'' resp_json])
                           | Inr power_ext \<Rightarrow>
                               (case combine E component power' power_ext of
                                  Inl e \<Rightarrow>
                                    (Inl e, dev',
                                     [GetPower k resp_json, GetPower ''component4'' resp_json,
                                      GetInverterState k (power' + power_ext)])
                                | Inr state \<Rightarrow>
                                    (Inr (), dev',
                                     [GetPower k resp_json, GetPower ''component4'' resp_json,
                                      GetInverterState k (power' + power_ext),
                                      StoreSet num state])))))))
      else (Inr (), dev, []))"

text \<open>
  \<open>for component in dev.components.values()\<close>: the iterator walks the dict by position
  and raises RuntimeError at its next step when the dict's size is no longer \<open>n\<close>, the
  size it had when the loop started; \<open>i\<close> is the position reached.
\<close>

function legacy_loop ::
  "env \<Rightarrow> int option \<Rightarrow> int \<Rightarrow> json \<Rightarrow> nat \<Rightarrow> device \<Rightarrow> nat \<Rightarrow>
   (error + unit) \<times> device \<times> event list" where
  "legacy_loop E num ext_inverter resp_json n dev i =
     (if length (components dev) \<noteq> n then
        (Inl (RuntimeError ''dictionary changed size during iteration''), dev, [])
      else if n \<le> i then (Inr (), dev, [])
      else
        (case legacy_step E num ext_inverter resp_json dev
                (fst (components dev ! i)) (snd (components dev ! i)) of
           (Inl e, dev', t) \<Rightarrow> (Inl e, dev', t)
         | (Inr u, dev', t) \<Rightarrow>
             (case legacy_loop E num ext_inverter resp_json n dev' (Suc i) of
                (r, dev'', t') \<Rightarrow> (r, dev'', t @ t'))))"
  by pat_completeness auto
termination
  by (relation "measure (\<lambda>(E, num, ext_inverter, resp_json, n, dev, i). n - i)") auto

declare legacy_loop.simps [simp del]

definition read_legacy ::
  "env \<Rightarrow> string \<Rightarrow> string \<Rightarrow> int option \<Rightarrow> string option \<Rightarrow> string option \<Rightarrow> int \<Rightarrow>
   (error + unit) \<times> event list" where
  "read_legacy E component_type ip_address num evu_counter bat_module ext_inverter =
     (case legacy_setup E component_type ip_address num evu_counter bat_module of
        (Inl e, t) \<Rightarrow> (Inl e, t)
      | (Inr dev, t) \<Rightarrow>
          (case with_context (components dev)
                  (case fetch E ip_address of
                     (Inl e, tf) \<Rightarrow> (Inl e, tf)
                   | (Inr resp_json, tf) \<Rightarrow>
                       (case legacy_loop E num ext_inverter resp_json
                               (length (components dev)) dev 0 of
                          (r, dev', t') \<Rightarrow> (r, tf @ t'))) of
             (r, tw) \<Rightarrow>
               (r, t @ [LogDebug (''BatterX IP-Adresse: '' @ ip_address),
                        LogDebug (''BatterX externer WR: '' @ str_int ext_inverter)] @ tw)))"

subsection \<open>Auxiliary notions for the statements\<close>

text \<open>
  The components whose \<open>update\<close> a dispatch over \<open>cs\<close> reaches: those before the first
  one that raises on the payload, and that one.
\<close>

definition succeeds :: "env \<Rightarrow> json \<Rightarrow> string \<times> component \<Rightarrow> bool" where
  "succeeds E resp_json kc = (component_update E (snd kc) resp_json = None)"

definition reached :: "env \<Rightarrow> json \<Rightarrow> (string \<times> component) list \<Rightarrow> (string \<times> component) list" where
  "reached E resp_json cs =
     takeWhile (succeeds E resp_json) cs @ take 1 (dropWhile (succeeds E resp_json) cs)"

text \<open>The URL of the request for a device address.\<close>

definition currentstate_url :: "string \<Rightarrow> string" where
  "currentstate_url ip_address = ''http://'' @ ip_address @ ''/api.php?get=currentstate''"

text \<open>A sequence of \<open>add_component\<close> calls on one Device; a call that raises changes nothing.\<close>

definition add_components :: "env \<Rightarrow> device \<Rightarrow> batterx_setup cfg_input list \<Rightarrow> device" where
  "add_components E dev cfgs = foldl (\<lambda>d cfg. snd (add_component E d cfg)) dev cfgs"

text \<open>
  An environment to run the definitions in: configurations that arrive as objects are
  taken as they are, a dict needs a string \<open>type\<close> and an integer \<open>id\<close>, every fetch
  returns the empty document, and the \<open>update\<close> of a counter raises.
\<close>

definition example_env :: env where
  "example_env =
     \<lparr>dataclass_from_dict_device =
        (\<lambda>cfg. case cfg of
                 AsObject c \<Rightarrow> Inr c
               | AsDict d \<Rightarrow> Inl (ExternalError ''invalid device configuration'')),
      dataclass_from_dict =
        (\<lambda>m cfg. case cfg of
                   AsObject s \<Rightarrow> Inr s
                 | AsDict d \<Rightarrow>
                     (case d ''type'' of
                        Some (FStr t) \<Rightarrow>
                          (case d ''id'' of
                             Some (FInt i) \<Rightarrow>
                               Inr \<lparr>setup_name = [], setup_type = t, setup_id = Some i\<rparr>
                           | _ \<Rightarrow> Inl (ExternalError ''invalid component configuration''))
                      | _ \<Rightarrow> Inl (ExternalError ''invalid component configuration''))),
      configuration_factory =
        (\<lambda>m. \<lparr>setup_name = [],
              setup_type =
                (case m of bat \<Rightarrow> ''bat'' | counter \<Rightarrow> ''counter'' | inverter \<Rightarrow> ''inverter''
                 | external_inverter \<Rightarrow> ''external_inverter''),
              setup_id = Some 0\<rparr>),
      BatterX_default = \<lparr>bx_name = ''BatterX'', bx_id = 0, bx_ip_address = []\<rparr>,
      component_init = (\<lambda>cls device_id cfg. None),
      http_get_json = (\<lambda>url timeout. Inr (JObj [])),
      component_update =
        (\<lambda>c resp_json.
           if comp_class c = BatterXCounter then Some (ExternalError ''counter'') else None),
      get_power = (\<lambda>c resp_json. Inr 0),
      get_inverter_state = (\<lambda>c p. Inr \<lparr>state_power = p, state_exported = 0\<rparr>),
      repr_components = (\<lambda>cs. join '','' (map fst cs))\<rparr>"

text \<open>Three components of device 0, as \<open>add_component\<close> builds them.\<close>

definition example_component :: "component_class \<Rightarrow> string \<Rightarrow> int \<Rightarrow> component" where
  "example_component cls tag i =
     \<lparr>comp_class = cls, comp_device_id = 0,
      comp_config = \<lparr>setup_name = [], setup_type = tag, setup_id = Some i\<rparr>\<rparr>"

definition example_config :: batterx where
  "example_config = \<lparr>bx_name = ''BatterX'', bx_id = 0, bx_ip_address = ''192.168.0.7''\<rparr>"

section \<open>Properties\<close>


subsection \<open>One cycle of \<open>Device.update\<close>\<close>

lemma dispatch_events:
  "snd (dispatch E cs p) = map (\<lambda>kc. Update (fst kc) p) (reached E p cs)"
  by (induction cs) (auto simp: reached_def succeeds_def split: option.splits prod.splits)

lemma dispatch_result:
  "fst (dispatch E cs p) =
     (case dropWhile (succeeds E p) cs of
        [] \<Rightarrow> Inr ()
      | kc # rest \<Rightarrow> (case component_update E (snd kc) p of Some e \<Rightarrow> Inl e | None \<Rightarrow> Inr ()))"
  by (induction cs) (auto simp: succeeds_def split: option.splits prod.splits)

lemma reached_all: "\<forall>kc\<in>set cs. succeeds E p kc \<Longrightarrow> reached E p cs = cs"
  by (simp add: reached_def takeWhile_eq_all_conv [THEN iffD2] dropWhile_eq_Nil_conv [THEN iffD2])

lemma reached_split:
  assumes "\<forall>kc\<in>set pre. succeeds E p kc" and "\<not> succeeds E p kc"
  shows "reached E p (pre @ kc # post) = pre @ [kc]"
  using assms by (simp add: reached_def takeWhile_append2 dropWhile_append2)

lemma dropWhile_split:
  assumes "\<forall>kc\<in>set pre. succeeds E p kc" and "\<not> succeeds E p kc"
  shows "dropWhile (succeeds E p) (pre @ kc # post) = kc # post"
  using assms by (simp add: dropWhile_append2)

lemma filter_Update_enter [simp]: "filter is_Update (mcuc_enter cs) = []"
  by (induction cs) (simp_all add: mcuc_enter_def)

lemma filter_Fetch_enter [simp]: "filter is_Fetch (mcuc_enter cs) = []"
  by (induction cs) (simp_all add: mcuc_enter_def)

lemma filter_Update_exit [simp]: "filter is_Update (snd (mcuc_exit ks exc)) = []"
  by (induction ks) (simp_all add: mcuc_exit_def)

lemma filter_Fetch_exit [simp]: "filter is_Fetch (snd (mcuc_exit ks exc)) = []"
  by (induction ks) (simp_all add: mcuc_exit_def)

lemma filter_Update_updates [simp]:
  "filter is_Update (map (\<lambda>kc. Update (fst kc) p) cs) = map (\<lambda>kc. Update (fst kc) p) cs"
  by (induction cs) simp_all

lemma filter_Fetch_updates [simp]: "filter is_Fetch (map (\<lambda>kc. Update (fst kc) p) cs) = []"
  by (induction cs) simp_all

lemma with_context_events:
  "snd (with_context cs (r, t)) =
     mcuc_enter cs @ t @ snd (mcuc_exit (map fst cs) (case r of Inl e \<Rightarrow> Some e | Inr u \<Rightarrow> None))"
  by (simp add: with_context_def split: prod.splits)

lemma update_events_nonempty:
  assumes "components self \<noteq> []"
  shows "snd (update E self) =
     LogDebug (''Start device reading '' @ repr_components E (components self)) #
     mcuc_enter (components self) @
     Fetch (currentstate_url (bx_ip_address (device_config self))) 5 #
     (case http_get_json E (currentstate_url (bx_ip_address (device_config self))) 5 of
        Inl e \<Rightarrow> snd (mcuc_exit (map fst (components self)) (Some e))
      | Inr p \<Rightarrow>
          map (\<lambda>kc. Update (fst kc) p) (reached E p (components self)) @
          snd (mcuc_exit (map fst (components self))
                 (case fst (dispatch E (components self) p) of Inl e \<Rightarrow> Some e | Inr u \<Rightarrow> None)))"
  using assms
  by (simp add: update_def fetch_def currentstate_url_def with_context_def mcuc_exit_def
      case_prod_beta dispatch_events split: sum.splits)


lemma filter_Release_enter [simp]: "filter is_Release (mcuc_enter cs) = []"
  by (induction cs) (simp_all add: mcuc_enter_def)

lemma filter_Release_exit [simp]:
  "filter is_Release (snd (mcuc_exit ks exc)) = map (\<lambda>k. Release k exc) ks"
  by (induction ks) (simp_all add: mcuc_exit_def)

lemma filter_Release_updates [simp]: "filter is_Release (map (\<lambda>kc. Update (fst kc) p) cs) = []"
  by (induction cs) simp_all

text \<open>
  C1 (as amended). In a cycle whose fetch succeeds and in which a component's \<open>update\<close>
  raises, the components before the first failing one (in the order of the collection) and
  the failing one have \<open>update\<close> invoked with the payload, once each, and no component
  after it is invoked: the exception ends the dispatch loop. It is the one failure the
  update context's exit is handed, which releases every slot with it.
\<close>

theorem update_dispatch_stops_at_failure:
  assumes "components self = pre @ (k, c) # post"
    and "\<forall>kc\<in>set pre. component_update E (snd kc) p = None"
    and "component_update E c p = Some e"
    and "http_get_json E (currentstate_url (bx_ip_address (device_config self))) 5 = Inr p"
  shows "filter is_Update (snd (update E self)) = map (\<lambda>kc. Update (fst kc) p) pre @ [Update k p]
       \<and> filter is_Release (snd (update E self)) =
           map (\<lambda>kc. Release (fst kc) (Some e)) (components self)"
proof -
  have pre: "\<forall>kc\<in>set pre. succeeds E p kc"
    using assms(2) by (simp add: succeeds_def)
  have fail: "\<not> succeeds E p (k, c)"
    using assms(3) by (simp add: succeeds_def)
  have r: "reached E p (components self) = pre @ [(k, c)]"
    unfolding assms(1) by (rule reached_split [OF pre fail])
  have d: "fst (dispatch E (components self) p) = Inl e"
    unfolding assms(1) dispatch_result dropWhile_split [OF pre fail]
    using assms(3) by simp
  have ne: "components self \<noteq> []"
    using assms(1) by simp
  show ?thesis
    unfolding update_events_nonempty [OF ne] assms(4)
    by (simp add: r d comp_def)
qed

text \<open>A bat, then a counter whose \<open>update\<close> raises, then an inverter.\<close>

theorem update_dispatch_stops_at_failure_witness:
  "filter is_Update (snd (update example_env
      \<lparr>components =
         [(''component3'', example_component BatterXBat ''bat'' 3),
          (''component0'', example_component BatterXCounter ''counter'' 0),
          (''component1'', example_component BatterXInverter ''inverter'' 1)],
       device_config = example_config\<rparr>)) =
     [Update ''component3'' (JObj []), Update ''component0'' (JObj [])]
   \<and> filter is_Release (snd (update example_env
      \<lparr>components =
         [(''component3'', example_component BatterXBat ''bat'' 3),
          (''component0'', example_component BatterXCounter ''counter'' 0),
          (''component1'', example_component BatterXInverter ''inverter'' 1)],
       device_config = example_config\<rparr>)) =
     [Release ''component3'' (Some (ExternalError ''counter'')),
      Release ''component0'' (Some (ExternalError ''counter'')),
      Release ''component1'' (Some (ExternalError ''counter''))]"
  using update_dispatch_stops_at_failure
    [of "\<lparr>components =
         [(''component3'', example_component BatterXBat ''bat'' 3),
          (''component0'', example_component BatterXCounter ''counter'' 0),
          (''component1'', example_component BatterXInverter ''inverter'' 1)],
       device_config = example_config\<rparr>"
        "[(''component3'', example_component BatterXBat ''bat'' 3)]"
        "''component0''" "example_component BatterXCounter ''counter'' 0"
        "[(''component1'', example_component BatterXInverter ''inverter'' 1)]"
        example_env "JObj []" "ExternalError ''counter''"]
  by (simp add: example_env_def example_component_def)

text \<open>
  C1 as stated fails: a counter whose \<open>update\<close> raises, followed by a bat whose
  \<open>update\<close> would succeed. The bat never receives the payload.
\<close>

theorem update_sibling_not_updated_counterexample:
  "component_update example_env (example_component BatterXBat ''bat'' 3) (JObj []) = None
   \<and> Update ''component3'' (JObj []) \<notin> set (snd (update example_env
      \<lparr>components =
         [(''component0'', example_component BatterXCounter ''counter'' 0),
          (''component3'', example_component BatterXBat ''bat'' 3)],
       device_config = example_config\<rparr>))"
  by (simp add: example_env_def example_component_def update_def fetch_def with_context_def
      mcuc_enter_def mcuc_exit_def)


text \<open>
  C2 (as amended). For a Device with a non-empty collection, one \<open>update\<close> makes exactly
  one fetch, a GET of \<open>http://<address>/api.php?get=currentstate\<close> with timeout 5. When the
  fetch succeeds, \<open>update(payload)\<close> is invoked with that one payload, in the order of the
  collection and once each, on the components up to and including the first whose
  \<open>update\<close> raises; when none raises, on every component of the collection.
\<close>

theorem update_one_fetch_then_dispatch:
  assumes "components self \<noteq> []"
  shows "filter is_Fetch (snd (update E self)) =
           [Fetch (currentstate_url (bx_ip_address (device_config self))) 5]
       \<and> (\<forall>p. http_get_json E (currentstate_url (bx_ip_address (device_config self))) 5 = Inr p \<longrightarrow>
              filter is_Update (snd (update E self)) =
                map (\<lambda>kc. Update (fst kc) p) (reached E p (components self))
            \<and> ((\<forall>kc\<in>set (components self). component_update E (snd kc) p = None) \<longrightarrow>
                  filter is_Update (snd (update E self)) =
                    map (\<lambda>kc. Update (fst kc) p) (components self)))"
proof (intro conjI allI impI)
  show "filter is_Fetch (snd (update E self)) =
          [Fetch (currentstate_url (bx_ip_address (device_config self))) 5]"
    unfolding update_events_nonempty [OF assms] by (simp split: sum.splits)
next
  fix p
  assume ok: "http_get_json E (currentstate_url (bx_ip_address (device_config self))) 5 = Inr p"
  show upd: "filter is_Update (snd (update E self)) =
          map (\<lambda>kc. Update (fst kc) p) (reached E p (components self))"
    unfolding update_events_nonempty [OF assms] ok by simp
  assume "\<forall>kc\<in>set (components self). component_update E (snd kc) p = None"
  then have "reached E p (components self) = components self"
    by (intro reached_all) (simp add: succeeds_def)
  with upd show "filter is_Update (snd (update E self)) =
          map (\<lambda>kc. Update (fst kc) p) (components self)"
    by simp
qed

text \<open>A bat and an inverter, both of which succeed.\<close>

theorem update_one_fetch_then_dispatch_witness:
  "filter is_Fetch (snd (update example_env
      \<lparr>components =
         [(''component3'', example_component BatterXBat ''bat'' 3),
          (''component1'', example_component BatterXInverter ''inverter'' 1)],
       device_config = example_config\<rparr>)) =
     [Fetch ''http://192.168.0.7/api.php?get=currentstate'' 5]
   \<and> filter is_Update (snd (update example_env
      \<lparr>components =
         [(''component3'', example_component BatterXBat ''bat'' 3),
          (''component1'', example_component BatterXInverter ''inverter'' 1)],
       device_config = example_config\<rparr>)) =
     [Update ''component3'' (JObj []), Update ''component1'' (JObj [])]"
proof -
  let ?D = "\<lparr>components =
         [(''component3'', example_component BatterXBat ''bat'' 3),
          (''component1'', example_component BatterXInverter ''inverter'' 1)],
       device_config = example_config\<rparr>"
  have ne: "components ?D \<noteq> []"
    by simp
  have ok: "http_get_json example_env (currentstate_url (bx_ip_address (device_config ?D))) 5 =
              Inr (JObj [])"
    by (simp add: example_env_def)
  have every: "\<forall>kc\<in>set (components ?D). component_update example_env (snd kc) (JObj []) = None"
    by (simp add: example_env_def example_component_def)
  note run = update_one_fetch_then_dispatch [OF ne, of example_env]
  from run ok every
  have "filter is_Update (snd (update example_env ?D)) =
          map (\<lambda>kc. Update (fst kc) (JObj [])) (components ?D)"
    by blast
  with run [THEN conjunct1] show ?thesis
    by (simp add: currentstate_url_def example_config_def)
qed

text \<open>
  C2 as stated fails: the fetch succeeds, the collection has a counter and an inverter,
  and \<open>update\<close> is invoked on the counter only, because the counter's \<open>update\<close> raises.
\<close>

theorem update_not_every_component_counterexample:
  "http_get_json example_env (currentstate_url ''192.168.0.7'') 5 = Inr (JObj [])
   \<and> filter is_Update (snd (update example_env
      \<lparr>components =
         [(''component0'', example_component BatterXCounter ''counter'' 0),
          (''component1'', example_component BatterXInverter ''inverter'' 1)],
       device_config = example_config\<rparr>)) =
     [Update ''component0'' (JObj [])]"
  by (simp add: example_env_def example_component_def update_def fetch_def with_context_def
      mcuc_enter_def mcuc_exit_def)

text \<open>
  C4. When the fetch of a cycle raises, no component's \<open>update\<close> is called; the slots
  acquired on entry are all released, each reported with the fetch error, and the events
  of the cycle are the entry, the one fetch and the exit.
\<close>

theorem update_fetch_error_no_update:
  assumes "components self \<noteq> []"
    and "http_get_json E (currentstate_url (bx_ip_address (device_config self))) 5 = Inl e"
  shows "update E self =
           (Inr (),
            LogDebug (''Start device reading '' @ repr_components E (components self)) #
            map (\<lambda>kc. Acquire (fst kc)) (components self) @
            Fetch (currentstate_url (bx_ip_address (device_config self))) 5 #
            map (\<lambda>kc. Release (fst kc) (Some e)) (components self))
       \<and> filter is_Update (snd (update E self)) = []"
proof
  show "filter is_Update (snd (update E self)) = []"
    unfolding update_events_nonempty [OF assms(1)] assms(2) by simp
  show "update E self =
           (Inr (),
            LogDebug (''Start device reading '' @ repr_components E (components self)) #
            map (\<lambda>kc. Acquire (fst kc)) (components self) @
            Fetch (currentstate_url (bx_ip_address (device_config self))) 5 #
            map (\<lambda>kc. Release (fst kc) (Some e)) (components self))"
    using assms
    by (simp add: update_def fetch_def currentstate_url_def with_context_def mcuc_enter_def
        mcuc_exit_def comp_def)
qed

text \<open>The fetch times out for a Device with a bat and an inverter.\<close>

theorem update_fetch_error_no_update_witness:
  "update (example_env\<lparr>http_get_json := \<lambda>url timeout. Inl (ExternalError ''timeout'')\<rparr>)
      \<lparr>components =
         [(''component3'', example_component BatterXBat ''bat'' 3),
          (''component1'', example_component BatterXInverter ''inverter'' 1)],
       device_config = example_config\<rparr> =
     (Inr (),
      [LogDebug ''Start device reading component3,component1'',
       Acquire ''component3'', Acquire ''component1'',
       Fetch ''http://192.168.0.7/api.php?get=currentstate'' 5,
       Release ''component3'' (Some (ExternalError ''timeout'')),
       Release ''component1'' (Some (ExternalError ''timeout''))])"
  using update_fetch_error_no_update
    [of "\<lparr>components =
         [(''component3'', example_component BatterXBat ''bat'' 3),
          (''component1'', example_component BatterXInverter ''inverter'' 1)],
       device_config = example_config\<rparr>"
        "example_env\<lparr>http_get_json := \<lambda>url timeout. Inl (ExternalError ''timeout'')\<rparr>"
        "ExternalError ''timeout''"]
  by (simp add: example_env_def example_config_def currentstate_url_def)

subsection \<open>Construction and \<open>add_component\<close>\<close>

lemma length_update:
  "length (AList.update k v al) = (if k \<in> fst ` set al then length al else Suc (length al))"
  by (induction al) auto

text \<open>
  C10. The constructor never returns without a normalized configuration. When
  \<open>dataclass_from_dict\<close> raises an \<open>Exception\<close>, the handler's own
  \<open>self.device_config.name\<close> raises AttributeError, any other exception passes the
  handler by, and nothing is logged; when it returns \<open>c\<close>, the object has
  \<open>device_config = c\<close> and an empty component collection.
\<close>

theorem Device_init_needs_config:
  "(case dataclass_from_dict_device E cfg of
      Inl e \<Rightarrow>
        Device_init E cfg =
          (Inl (if is_Exception e then AttributeError ''device_config'' else e), [])
        \<and> Device E cfg =
          (Inl (if is_Exception e then AttributeError ''device_config'' else e), [])
    | Inr c \<Rightarrow>
        Device_init E cfg =
          (Inr \<lparr>attr_components = Some [], attr_device_config = Some c\<rparr>, [])
        \<and> Device E cfg = (Inr \<lparr>components = [], device_config = c\<rparr>, []))"
  by (simp add: Device_init_def Device_def the_device_def split: sum.splits)

text \<open>
  C3, on the code. A dict configuration of type \<open>foo\<close>, a tag that is in neither
  registry: \<open>add_component\<close> raises the \<open>KeyError\<close> of the lookup in
  \<open>COMPONENT_TYPE_TO_MODULE\<close>, whose message is the tag alone, and not the
  exception that lists the allowed values. The Device is unchanged.
\<close>

theorem add_component_unknown_type_KeyError:
  "add_component E dev (AsDict [''type'' \<mapsto> FStr ''foo'', ''id'' \<mapsto> FInt 1]) =
     (Inl (KeyError (FStr ''foo'')), dev)"
  by (simp add: add_component_def lookup_tag_def COMPONENT_TYPE_TO_MODULE_def)

text \<open>
  The exception that lists the allowed values is raised for the one tag that
  \<open>COMPONENT_TYPE_TO_MODULE\<close> has and \<open>COMPONENT_TYPE_TO_CLASS\<close> has not.
\<close>

lemma add_component_external_inverter:
  assumes "dataclass_from_dict E external_inverter (AsObject s) = Inr s'"
    and "setup_type s = ''external_inverter''"
  shows "add_component E dev (AsObject s) =
           (Inl (Exception
              ''illegal component type external_inverter. Allowed values: bat,counter,inverter''),
            dev)"
  using assms
  by (simp add: add_component_def lookup_tag_def COMPONENT_TYPE_TO_MODULE_def
      COMPONENT_TYPE_TO_CLASS_def illegal_component_type_def)

text \<open>
  C9. \<open>add_component\<close> is atomic. If it raises, the Device is as before the call. If it
  returns, the Device differs from the one before the call in exactly one entry of the
  collection: under the key \<open>"component" + str(id)\<close> of the normalized configuration stands
  the new component, in place of the entry that had that key if there was one, and as a
  new last entry otherwise.
\<close>

theorem add_component_atomic:
  "(case add_component E dev cfg of
      (Inl e, dev') \<Rightarrow> dev' = dev
    | (Inr u, dev') \<Rightarrow>
        (\<exists>m cls s.
           dataclass_from_dict E m cfg = Inr s
           \<and> dev' = dev\<lparr>components :=
                 AList.update (''component'' @ str (setup_id s))
                   \<lparr>comp_class = cls, comp_device_id = bx_id (device_config dev),
                    comp_config = s\<rparr>
                   (components dev)\<rparr>
           \<and> map_of (components dev') =
               (map_of (components dev))
                 (''component'' @ str (setup_id s) \<mapsto>
                    \<lparr>comp_class = cls, comp_device_id = bx_id (device_config dev),
                     comp_config = s\<rparr>)
           \<and> length (components dev') =
               (if ''component'' @ str (setup_id s) \<in> fst ` set (components dev)
                then length (components dev) else Suc (length (components dev)))))"
  by (auto simp: add_component_def AList.update_conv' length_update
      split: sum.splits option.splits cfg_input.splits)

text \<open>
  Both outcomes at concrete inputs: a dict without \<open>id\<close> is refused by the normalization
  and the Device stays as it is; an inverter configuration with id 2 is stored as a second
  entry.
\<close>

lemma add_component_both_outcomes:
  "add_component example_env
     \<lparr>components = [(''component0'', example_component BatterXBat ''bat'' 0)],
      device_config = example_config\<rparr>
     (AsDict [''type'' \<mapsto> FStr ''inverter'']) =
     (Inl (ExternalError ''invalid component configuration''),
      \<lparr>components = [(''component0'', example_component BatterXBat ''bat'' 0)],
       device_config = example_config\<rparr>)
   \<and> add_component example_env
     \<lparr>components = [(''component0'', example_component BatterXBat ''bat'' 0)],
      device_config = example_config\<rparr>
     (AsDict [''type'' \<mapsto> FStr ''inverter'', ''id'' \<mapsto> FInt 2]) =
     (Inr (),
      \<lparr>components =
         [(''component0'', example_component BatterXBat ''bat'' 0),
          (''component2'', example_component BatterXInverter ''inverter'' 2)],
       device_config = example_config\<rparr>)"
  by (simp add: add_component_def lookup_tag_def COMPONENT_TYPE_TO_MODULE_def
      COMPONENT_TYPE_TO_CLASS_def example_env_def example_component_def example_config_def
      str_int_def digits.simps digit_char_def)

subsection \<open>The derived inverter state\<close>

text \<open>
  C8. The combining step is a function of the two readings that depends on their sum
  only: it is symmetric in the readings, and two pairs of readings with the same sum
  (equal pairs among them) give the same derived state.
\<close>

theorem combine_symmetric:
  "combine E c a b = combine E c b a
   \<and> (a + b = a' + b' \<longrightarrow> combine E c a b = combine E c a' b')"
  by (simp add: combine_def add.commute)

text \<open>The readings 5 and 3, swapped, and replaced by 6 and 2.\<close>

theorem combine_symmetric_witness:
  "combine example_env (example_component BatterXInverter ''inverter'' 1) 5 3 =
     Inr \<lparr>state_power = 8, state_exported = 0\<rparr>
   \<and> combine example_env (example_component BatterXInverter ''inverter'' 1) 5 3 =
     combine example_env (example_component BatterXInverter ''inverter'' 1) 3 5
   \<and> combine example_env (example_component BatterXInverter ''inverter'' 1) 5 3 =
     combine example_env (example_component BatterXInverter ''inverter'' 1) 6 2"
proof -
  have "(5::int) + 3 = 6 + 2"
    by simp
  with combine_symmetric
    [of example_env "example_component BatterXInverter ''inverter'' 1" 5 3 6 2]
  show ?thesis
    by (simp add: combine_def example_env_def)
qed

subsection \<open>\<open>read_legacy\<close>\<close>

lemma Device_events: "snd (Device E cfg) = []"
  by (simp add: Device_def Device_init_def Let_def split: sum.splits)

lemma legacy_setup_events: "snd (legacy_setup E component_type ip_address num evu_counter bat_module) = []"
  using Device_events [of E "AsObject ((BatterX_default E)\<lparr>bx_ip_address := ip_address\<rparr>)"]
  by (auto simp: legacy_setup_def split: sum.splits prod.splits if_splits)

lemma legacy_step_no_Fetch:
  "filter is_Fetch (snd (snd (legacy_step E num ext_inverter resp_json dev k c))) = []"
  by (simp add: legacy_step_def split: option.splits sum.splits prod.splits)

lemma legacy_loop_no_Fetch:
  "filter is_Fetch (snd (snd (legacy_loop E num ext_inverter resp_json n dev i))) = []"
proof (induction E num ext_inverter resp_json n dev i rule: legacy_loop.induct)
  case (1 E num ext_inverter resp_json n dev i)
  show ?case
  proof (cases "length (components dev) \<noteq> n \<or> n \<le> i")
    case True
    then show ?thesis
      by (subst legacy_loop.simps) auto
  next
    case False
    obtain r dev' t where step:
      "legacy_step E num ext_inverter resp_json dev
         (fst (components dev ! i)) (snd (components dev ! i)) = (r, dev', t)"
      by (cases "legacy_step E num ext_inverter resp_json dev
         (fst (components dev ! i)) (snd (components dev ! i))") auto
    have t: "filter is_Fetch t = []"
      using legacy_step_no_Fetch
        [of E num ext_inverter resp_json dev "fst (components dev ! i)" "snd (components dev ! i)"]
      by (simp add: step)
    show ?thesis
    proof (cases r)
      case (Inl e)
      with False step t show ?thesis
        by (subst legacy_loop.simps) simp
    next
      case (Inr u)
      with False step have
        "filter is_Fetch (snd (snd (legacy_loop E num ext_inverter resp_json n dev' (Suc i)))) = []"
        by (intro "1.IH") auto
      with False step t Inr show ?thesis
        by (subst legacy_loop.simps) (simp add: case_prod_beta)
    qed
  qed
qed

lemma legacy_step_payload:
  "\<forall>ev\<in>set (snd (snd (legacy_step E num ext_inverter resp_json dev k c))).
     \<forall>q. payload_of ev = Some q \<longrightarrow> q = resp_json"
  by (simp add: legacy_step_def split: option.splits sum.splits prod.splits)

lemma legacy_loop_payload:
  "\<forall>ev\<in>set (snd (snd (legacy_loop E num ext_inverter resp_json n dev i))).
     \<forall>q. payload_of ev = Some q \<longrightarrow> q = resp_json"
proof (induction E num ext_inverter resp_json n dev i rule: legacy_loop.induct)
  case (1 E num ext_inverter resp_json n dev i)
  show ?case
  proof (cases "length (components dev) \<noteq> n \<or> n \<le> i")
    case True
    then show ?thesis
      by (subst legacy_loop.simps) auto
  next
    case False
    obtain r dev' t where step:
      "legacy_step E num ext_inverter resp_json dev
         (fst (components dev ! i)) (snd (components dev ! i)) = (r, dev', t)"
      by (cases "legacy_step E num ext_inverter resp_json dev
         (fst (components dev ! i)) (snd (components dev ! i))") auto
    have t: "\<forall>ev\<in>set t. \<forall>q. payload_of ev = Some q \<longrightarrow> q = resp_json"
      using legacy_step_payload
        [of E num ext_inverter resp_json dev "fst (components dev ! i)" "snd (components dev ! i)"]
      by (simp add: step)
    show ?thesis
    proof (cases r)
      case (Inl e)
      with False step t show ?thesis
        by (subst legacy_loop.simps) simp
    next
      case (Inr u)
      with False step have
        "\<forall>ev\<in>set (snd (snd (legacy_loop E num ext_inverter resp_json n dev' (Suc i)))).
           \<forall>q. payload_of ev = Some q \<longrightarrow> q = resp_json"
        by (intro "1.IH") auto
      with False step t Inr show ?thesis
        by (subst legacy_loop.simps) (auto simp: case_prod_beta)
    qed
  qed
qed

lemma payload_of_enter [simp]: "ev \<in> set (mcuc_enter cs) \<Longrightarrow> payload_of ev = None"
  by (auto simp: mcuc_enter_def)

lemma payload_of_exit [simp]: "ev \<in> set (snd (mcuc_exit ks exc)) \<Longrightarrow> payload_of ev = None"
  by (auto simp: mcuc_exit_def)

lemma read_legacy_payload:
  assumes "ev \<in> set (snd (read_legacy E component_type ip_address num evu_counter bat_module
             ext_inverter))"
    and "payload_of ev = Some q"
  shows "http_get_json E (currentstate_url ip_address) 5 = Inr q"
proof (cases "legacy_setup E component_type ip_address num evu_counter bat_module")
  case (Pair r t)
  have t: "t = []"
    using legacy_setup_events [of E component_type ip_address num evu_counter bat_module]
    by (simp add: Pair)
  show ?thesis
  proof (cases r)
    case (Inl e)
    with Pair t assms show ?thesis
      by (simp add: read_legacy_def)
  next
    case (Inr dev)
    show ?thesis
    proof (cases "http_get_json E (currentstate_url ip_address) 5")
      case (Inl e)
      with Pair t Inr assms show ?thesis
        by (auto simp: read_legacy_def with_context_def fetch_def currentstate_url_def Let_def
            mcuc_enter_def mcuc_exit_def)
    next
      case fetched: (Inr resp_json)
      from Pair t Inr fetched assms(1) have
        "ev \<in> set (mcuc_enter (components dev))
         \<or> ev \<in> set (snd (mcuc_exit (map fst (components dev))
              (case fst (legacy_loop E num ext_inverter resp_json
                           (length (components dev)) dev 0) of
                 Inl e \<Rightarrow> Some e | Inr u \<Rightarrow> None)))
         \<or> ev \<in> set (snd (snd (legacy_loop E num ext_inverter resp_json
              (length (components dev)) dev 0)))
         \<or> payload_of ev = None"
        by (auto simp: read_legacy_def with_context_def fetch_def currentstate_url_def Let_def
            case_prod_beta)
      with assms(2) legacy_loop_payload
        [of E num ext_inverter resp_json "length (components dev)" dev 0]
      have "q = resp_json"
        by auto
      with fetched show ?thesis
        by simp
    qed
  qed
qed

text \<open>
  C7 (as amended). \<open>read_legacy\<close> makes at most one fetch in a run, whatever the
  external-inverter flag: none when building the Device or adding its components raises,
  and otherwise exactly one, the GET of \<open>http://<address>/api.php?get=currentstate\<close> with
  timeout 5 inside the update context. No second fetch is made for the external inverter:
  every \<open>update\<close> and every \<open>get_power\<close> that the run calls, on the primary inverter or on
  the external one, is given the payload that this one fetch returned.
\<close>

theorem read_legacy_one_fetch:
  "filter is_Fetch
     (snd (read_legacy E component_type ip_address num evu_counter bat_module ext_inverter)) =
     (case fst (legacy_setup E component_type ip_address num evu_counter bat_module) of
        Inl e \<Rightarrow> []
      | Inr dev \<Rightarrow> [Fetch (currentstate_url ip_address) 5])
   \<and> (\<forall>ev\<in>set (snd (read_legacy E component_type ip_address num evu_counter bat_module
                      ext_inverter)).
        \<forall>q. payload_of ev = Some q \<longrightarrow>
            http_get_json E (currentstate_url ip_address) 5 = Inr q)"
proof
  show "filter is_Fetch
     (snd (read_legacy E component_type ip_address num evu_counter bat_module ext_inverter)) =
     (case fst (legacy_setup E component_type ip_address num evu_counter bat_module) of
        Inl e \<Rightarrow> []
      | Inr dev \<Rightarrow> [Fetch (currentstate_url ip_address) 5])"
  proof (cases "legacy_setup E component_type ip_address num evu_counter bat_module")
    case (Pair r t)
    have t: "t = []"
      using legacy_setup_events [of E component_type ip_address num evu_counter bat_module]
      by (simp add: Pair)
    show ?thesis
    proof (cases r)
      case (Inl e)
      with Pair t show ?thesis
        by (simp add: read_legacy_def)
    next
      case (Inr dev)
      with Pair t show ?thesis
        by (simp add: read_legacy_def with_context_def fetch_def currentstate_url_def Let_def
            case_prod_beta legacy_loop_no_Fetch split: sum.splits)
    qed
  qed
  show "\<forall>ev\<in>set (snd (read_legacy E component_type ip_address num evu_counter bat_module
                      ext_inverter)).
        \<forall>q. payload_of ev = Some q \<longrightarrow>
            http_get_json E (currentstate_url ip_address) 5 = Inr q"
    using read_legacy_payload by blast
qed

text \<open>
  C7 as stated fails: with an inverter as primary component and the external-inverter
  flag set, the run makes one fetch, not two.
\<close>

theorem read_legacy_ext_inverter_counterexample:
  "filter is_Fetch (snd (read_legacy example_env ''inverter'' ''192.168.0.7'' (Some 1) None None 1)) =
     [Fetch ''http://192.168.0.7/api.php?get=currentstate'' 5]"
  by (simp add: read_legacy_def legacy_setup_def Device_def Device_init_def the_device_def
      legacy_add_component_def add_component_def lookup_tag_def COMPONENT_TYPE_TO_MODULE_def
      COMPONENT_TYPE_TO_CLASS_def example_env_def with_context_def fetch_def mcuc_enter_def
      mcuc_exit_def legacy_loop.simps legacy_step_def illegal_component_type_def str_int_def
      digits.simps digit_char_def)

text \<open>
  The whole run at that input, in an environment where the configuration that
  \<open>external_inverter\<close>'s factory builds has the type tag \<open>external_inverter\<close>: as
  \<open>COMPONENT_TYPE_TO_CLASS\<close> has no such key, adding the external inverter raises inside
  the loop, before any power is read, and nothing reaches the value store.
\<close>

lemma read_legacy_ext_inverter_run:
  "read_legacy example_env ''inverter'' ''192.168.0.7'' (Some 1) None None 1 =
     (Inr (),
      [LogDebug ''BatterX IP-Adresse: 192.168.0.7'',
       LogDebug ''BatterX externer WR: 1'',
       Acquire ''component1'',
       Fetch ''http://192.168.0.7/api.php?get=currentstate'' 5,
       Release ''component1''
         (Some (Exception
            ''illegal component type external_inverter. Allowed values: bat,counter,inverter''))])"
  by (simp add: read_legacy_def legacy_setup_def Device_def Device_init_def the_device_def
      legacy_add_component_def add_component_def lookup_tag_def COMPONENT_TYPE_TO_MODULE_def
      COMPONENT_TYPE_TO_CLASS_def example_env_def with_context_def fetch_def mcuc_enter_def
      mcuc_exit_def legacy_loop.simps legacy_step_def illegal_component_type_def str_int_def
      digits.simps digit_char_def)

text \<open>Without the flag the same run updates the inverter from the one payload.\<close>

lemma read_legacy_inverter_run:
  "read_legacy example_env ''inverter'' ''192.168.0.7'' (Some 1) None None 0 =
     (Inr (),
      [LogDebug ''BatterX IP-Adresse: 192.168.0.7'',
       LogDebug ''BatterX externer WR: 0'',
       Acquire ''component1'',
       Fetch ''http://192.168.0.7/api.php?get=currentstate'' 5,
       Update ''component1'' (JObj []),
       Release ''component1'' None])"
  by (simp add: read_legacy_def legacy_setup_def Device_def Device_init_def the_device_def
      legacy_add_component_def add_component_def lookup_tag_def COMPONENT_TYPE_TO_MODULE_def
      COMPONENT_TYPE_TO_CLASS_def example_env_def with_context_def fetch_def mcuc_enter_def
      mcuc_exit_def legacy_loop.simps legacy_step_def illegal_component_type_def str_int_def
      digits.simps digit_char_def)

text \<open>
  The branch for the external inverter, run to its end: an environment that differs from
  \<open>example_env\<close> in that the factories build configurations of type \<open>inverter\<close>, a type
  the Device has a class for, and a primary inverter with id 4, whose entry the external
  inverter then takes. Both powers are read from the one payload and one state is stored.
\<close>

lemma read_legacy_external_inverter_added_run:
  "read_legacy
     (example_env\<lparr>configuration_factory :=
        \<lambda>m. \<lparr>setup_name = [], setup_type = ''inverter'', setup_id = Some 0\<rparr>\<rparr>)
     ''inverter'' ''192.168.0.7'' (Some 4) None None 1 =
     (Inr (),
      [LogDebug ''BatterX IP-Adresse: 192.168.0.7'',
       LogDebug ''BatterX externer WR: 1'',
       Acquire ''component4'',
       Fetch ''http://192.168.0.7/api.php?get=currentstate'' 5,
       GetPower ''component4'' (JObj []),
       GetPower ''component4'' (JObj []),
       GetInverterState ''component4'' 0,
       StoreSet (Some 4) \<lparr>state_power = 0, state_exported = 0\<rparr>,
       Release ''component4'' None])"
  by (simp add: read_legacy_def legacy_setup_def Device_def Device_init_def the_device_def
      legacy_add_component_def add_component_def lookup_tag_def COMPONENT_TYPE_TO_MODULE_def
      COMPONENT_TYPE_TO_CLASS_def example_env_def with_context_def fetch_def mcuc_enter_def
      mcuc_exit_def legacy_loop.simps legacy_step_def combine_def illegal_component_type_def
      str_int_def digits.simps digit_char_def)

text \<open>
  The two runs above that call component methods: the payload of the inverter's \<open>update\<close>,
  and of the two \<open>get_power\<close> calls, is the document the one fetch returned.
\<close>

theorem read_legacy_one_fetch_witness:
  "Update ''component1'' (JObj []) \<in>
     set (snd (read_legacy example_env ''inverter'' ''192.168.0.7'' (Some 1) None None 0))
   \<and> http_get_json example_env (currentstate_url ''192.168.0.7'') 5 = Inr (JObj [])
   \<and> GetPower ''component4'' (JObj []) \<in>
     set (snd (read_legacy
       (example_env\<lparr>configuration_factory :=
          \<lambda>m. \<lparr>setup_name = [], setup_type = ''inverter'', setup_id = Some 0\<rparr>\<rparr>)
       ''inverter'' ''192.168.0.7'' (Some 4) None None 1))
   \<and> http_get_json
       (example_env\<lparr>configuration_factory :=
          \<lambda>m. \<lparr>setup_name = [], setup_type = ''inverter'', setup_id = Some 0\<rparr>\<rparr>)
       (currentstate_url ''192.168.0.7'') 5 = Inr (JObj [])
   \<and> filter is_Fetch (snd (read_legacy
       (example_env\<lparr>configuration_factory :=
          \<lambda>m. \<lparr>setup_name = [], setup_type = ''inverter'', setup_id = Some 0\<rparr>\<rparr>)
       ''inverter'' ''192.168.0.7'' (Some 4) None None 1)) =
     [Fetch ''http://192.168.0.7/api.php?get=currentstate'' 5]"
proof -
  let ?E = "example_env\<lparr>configuration_factory :=
          \<lambda>m. \<lparr>setup_name = [], setup_type = ''inverter'', setup_id = Some 0\<rparr>\<rparr>"
  have upd: "Update ''component1'' (JObj []) \<in>
     set (snd (read_legacy example_env ''inverter'' ''192.168.0.7'' (Some 1) None None 0))"
    by (simp add: read_legacy_inverter_run)
  have pw: "GetPower ''component4'' (JObj []) \<in>
     set (snd (read_legacy ?E ''inverter'' ''192.168.0.7'' (Some 4) None None 1))"
    by (simp add: read_legacy_external_inverter_added_run)
  note a = read_legacy_one_fetch
    [of example_env "''inverter''" "''192.168.0.7''" "Some 1" None None 0]
  note b = read_legacy_one_fetch [of ?E "''inverter''" "''192.168.0.7''" "Some 4" None None 1]
  from a upd have fa: "http_get_json example_env (currentstate_url ''192.168.0.7'') 5 = Inr (JObj [])"
    by fastforce
  from b pw have fb: "http_get_json ?E (currentstate_url ''192.168.0.7'') 5 = Inr (JObj [])"
    by fastforce
  have "filter is_Fetch (snd (read_legacy ?E ''inverter'' ''192.168.0.7'' (Some 4) None None 1)) =
     [Fetch ''http://192.168.0.7/api.php?get=currentstate'' 5]"
    by (simp add: read_legacy_external_inverter_added_run)
  with upd pw fa fb show ?thesis
    by simp
qed

subsection \<open>The keys of the component collection\<close>

lemma digit_char_inj:
  assumes "m < 10" and "n < 10" and "digit_char m = digit_char n"
  shows "m = n"
proof -
  have m: "m \<in> {0, 1, 2, 3, 4, 5, 6, 7, 8, 9}"
    using assms(1) by auto
  have n: "n \<in> {0, 1, 2, 3, 4, 5, 6, 7, 8, 9}"
    using assms(2) by auto
  from m n assms(3) show ?thesis
    by (auto simp: digit_char_def)
qed

lemma digit_char_is_digit:
  assumes "n < 10"
  shows "digit_char n \<in> set ''0123456789''"
proof -
  have "n \<in> {0, 1, 2, 3, 4, 5, 6, 7, 8, 9}"
    using assms by auto
  then show ?thesis
    by (auto simp: digit_char_def)
qed

lemma digits_not_Nil: "digits n \<noteq> []"
  by (subst digits.simps) simp

lemma digits_are_digits: "set (digits n) \<subseteq> set ''0123456789''"
proof (induction n rule: digits.induct)
  case (1 n)
  show ?case
  proof (cases "n < 10")
    case True
    then show ?thesis
      using digit_char_is_digit [of n] by (subst digits.simps) simp
  next
    case False
    then show ?thesis
      using "1.IH" digit_char_is_digit [of "n mod 10"] by (subst digits.simps) simp
  qed
qed

lemma digits_inj: "digits m = digits n \<Longrightarrow> m = n"
proof (induction m arbitrary: n rule: digits.induct)
  case (1 m)
  show ?case
  proof (cases "m < 10")
    case m: True
    show ?thesis
    proof (cases "n < 10")
      case True
      with m "1.prems" show ?thesis
        by (simp add: digits.simps [of m] digits.simps [of n] digit_char_inj)
    next
      case False
      with m "1.prems" digits_not_Nil [of "n div 10"] show ?thesis
        by (simp add: digits.simps [of m] digits.simps [of n])
    qed
  next
    case m: False
    show ?thesis
    proof (cases "n < 10")
      case True
      with m "1.prems" digits_not_Nil [of "m div 10"] show ?thesis
        by (simp add: digits.simps [of m] digits.simps [of n])
    next
      case False
      with m "1.prems" have
        eq: "digits (m div 10) = digits (n div 10)" "digit_char (m mod 10) = digit_char (n mod 10)"
        by (simp_all add: digits.simps [of m] digits.simps [of n])
      from "1.IH" [OF m eq(1)] have "m div 10 = n div 10" .
      moreover from eq(2) have "m mod 10 = n mod 10"
        by (intro digit_char_inj) simp_all
      ultimately show ?thesis
        by (metis div_mult_mod_eq)
    qed
  qed
qed

lemma str_int_inj: "str_int i = str_int j \<Longrightarrow> i = j"
proof -
  assume eq: "str_int i = str_int j"
  have no_minus: "\<And>n ds. digits n \<noteq> CHR ''-'' # ds"
  proof
    fix n ds
    assume "digits n = CHR ''-'' # ds"
    then have "CHR ''-'' \<in> set (digits n)"
      by simp
    with digits_are_digits [of n] show False
      by auto
  qed
  show ?thesis
  proof (cases "i < 0")
    case i: True
    show ?thesis
    proof (cases "j < 0")
      case True
      with i eq have "nat (- i) = nat (- j)"
        by (simp add: str_int_def digits_inj)
      with i True show ?thesis
        by simp
    next
      case False
      with i eq no_minus [of "nat j" "digits (nat (- i))"] show ?thesis
        by (simp add: str_int_def)
    qed
  next
    case i: False
    show ?thesis
    proof (cases "j < 0")
      case True
      with i eq no_minus [of "nat i" "digits (nat (- j))"] show ?thesis
        by (simp add: str_int_def)
    next
      case False
      with i eq have "nat i = nat j"
        by (simp add: str_int_def digits_inj)
      with i False show ?thesis
        by simp
    qed
  qed
qed

lemma str_int_not_None: "str_int i \<noteq> ''None''"
proof
  assume eq: "str_int i = ''None''"
  show False
  proof (cases "i < 0")
    case True
    with eq show False
      by (simp add: str_int_def)
  next
    case False
    with eq have "CHR ''N'' \<in> set (digits (nat i))"
      by (simp add: str_int_def)
    with digits_are_digits [of "nat i"] show False
      by auto
  qed
qed

lemma str_inj: "str a = str b \<Longrightarrow> a = b"
proof (cases a; cases b)
  fix i j
  assume "str a = str b" "a = Some i" "b = Some j"
  then show "a = b"
    by (simp add: str_int_inj)
next
  fix j
  assume "str a = str b" "a = None" "b = Some j"
  then show "a = b"
    using str_int_not_None [of j] by simp
next
  fix i
  assume "str a = str b" "a = Some i" "b = None"
  then show "a = b"
    using str_int_not_None [of i] by simp
qed simp

lemma update_keeps_others:
  "(k', v') \<in> set al \<Longrightarrow> k' \<noteq> k \<Longrightarrow> (k', v') \<in> set (AList.update k v al)"
  by (induction al) auto

lemma add_component_distinct:
  "distinct (map fst (components dev)) \<Longrightarrow>
   distinct (map fst (components (snd (add_component E dev cfg))))"
  by (auto simp: add_component_def AList.distinct_update
      split: sum.splits option.splits cfg_input.splits)

lemma add_components_distinct:
  "distinct (map fst (components dev)) \<Longrightarrow>
   distinct (map fst (components (add_components E dev cfgs)))"
  unfolding add_components_def
  by (induction cfgs arbitrary: dev) (simp_all add: add_component_distinct)

text \<open>
  C6 (as amended). The keys of the collection are unique per id, not per type and id.
  After any sequence of \<open>add_component\<close> calls on a new Device the keys are pairwise
  distinct; the key \<open>"component" + str(id)\<close> is the same for two ids only when the ids are
  equal, and the type has no part in it. A call that raises leaves the collection as it
  is. A call that returns changes the collection in one place only, the key of the
  normalized configuration's id: the new component stands under that key, every entry
  under another key is kept as it is, so that components with different ids coexist; the
  keys stay as they are when the key is there already (the entry is replaced, whatever
  the type of the component it held), and the key is appended otherwise.
\<close>

theorem component_keys_by_id:
  "distinct (map fst (components
      (add_components E \<lparr>components = [], device_config = c\<rparr> cfgs)))
   \<and> ((''component'' @ str i = ''component'' @ str j) = (i = j))
   \<and> (case add_component E dev cfg of
         (Inl e, dev') \<Rightarrow> components dev' = components dev
       | (Inr u, dev') \<Rightarrow>
           (\<exists>m s new.
              dataclass_from_dict E m cfg = Inr s \<and> comp_config new = s
              \<and> comp_device_id new = bx_id (device_config dev)
              \<and> components dev' =
                  AList.update (''component'' @ str (setup_id s)) new (components dev)
              \<and> map_of (components dev') =
                  (map_of (components dev))(''component'' @ str (setup_id s) \<mapsto> new)
              \<and> map_of (components dev') (''component'' @ str (setup_id s)) = Some new
              \<and> (\<forall>k. k \<noteq> ''component'' @ str (setup_id s) \<longrightarrow>
                     map_of (components dev') k = map_of (components dev) k)
              \<and> (\<forall>kc\<in>set (components dev).
                     fst kc \<noteq> ''component'' @ str (setup_id s) \<longrightarrow> kc \<in> set (components dev'))
              \<and> map fst (components dev') =
                  (if ''component'' @ str (setup_id s) \<in> set (map fst (components dev))
                   then map fst (components dev)
                   else map fst (components dev) @ [''component'' @ str (setup_id s)])))"
proof (intro conjI)
  show "distinct (map fst (components
      (add_components E \<lparr>components = [], device_config = c\<rparr> cfgs)))"
    by (rule add_components_distinct) simp
  show "(''component'' @ str i = ''component'' @ str j) = (i = j)"
    using str_inj [of i j] by auto
  show "case add_component E dev cfg of
         (Inl e, dev') \<Rightarrow> components dev' = components dev
       | (Inr u, dev') \<Rightarrow>
           (\<exists>m s new.
              dataclass_from_dict E m cfg = Inr s \<and> comp_config new = s
              \<and> comp_device_id new = bx_id (device_config dev)
              \<and> components dev' =
                  AList.update (''component'' @ str (setup_id s)) new (components dev)
              \<and> map_of (components dev') =
                  (map_of (components dev))(''component'' @ str (setup_id s) \<mapsto> new)
              \<and> map_of (components dev') (''component'' @ str (setup_id s)) = Some new
              \<and> (\<forall>k. k \<noteq> ''component'' @ str (setup_id s) \<longrightarrow>
                     map_of (components dev') k = map_of (components dev) k)
              \<and> (\<forall>kc\<in>set (components dev).
                     fst kc \<noteq> ''component'' @ str (setup_id s) \<longrightarrow> kc \<in> set (components dev'))
              \<and> map fst (components dev') =
                  (if ''component'' @ str (setup_id s) \<in> set (map fst (components dev))
                   then map fst (components dev)
                   else map fst (components dev) @ [''component'' @ str (setup_id s)]))"
  proof (cases "add_component E dev cfg")
    case (Pair r dev')
    show ?thesis
    proof (cases r)
      case (Inl e)
      with Pair show ?thesis
        by (auto simp: add_component_def split: sum.splits option.splits cfg_input.splits)
    next
      case (Inr u)
      with Pair obtain m cls s where s: "dataclass_from_dict E m cfg = Inr s"
        and dev': "components dev' =
           AList.update (''component'' @ str (setup_id s))
             \<lparr>comp_class = cls, comp_device_id = bx_id (device_config dev), comp_config = s\<rparr>
             (components dev)"
        by (auto simp: add_component_def split: sum.splits option.splits cfg_input.splits)
      let ?k = "''component'' @ str (setup_id s)"
      let ?new = "\<lparr>comp_class = cls, comp_device_id = bx_id (device_config dev),
                    comp_config = s\<rparr>"
      have kept: "\<forall>kc\<in>set (components dev). fst kc \<noteq> ?k \<longrightarrow> kc \<in> set (components dev')"
      proof (intro ballI impI)
        fix kc
        assume "kc \<in> set (components dev)" and "fst kc \<noteq> ?k"
        then show "kc \<in> set (components dev')"
          unfolding dev'
          using update_keeps_others [of "fst kc" "snd kc" "components dev" ?k ?new]
          by simp
      qed
      have "dataclass_from_dict E m cfg = Inr s \<and> comp_config ?new = s
          \<and> comp_device_id ?new = bx_id (device_config dev)
          \<and> components dev' = AList.update ?k ?new (components dev)
          \<and> map_of (components dev') = (map_of (components dev))(?k \<mapsto> ?new)
          \<and> map_of (components dev') ?k = Some ?new
          \<and> (\<forall>k. k \<noteq> ?k \<longrightarrow> map_of (components dev') k = map_of (components dev) k)
          \<and> (\<forall>kc\<in>set (components dev). fst kc \<noteq> ?k \<longrightarrow> kc \<in> set (components dev'))
          \<and> map fst (components dev') =
              (if ?k \<in> set (map fst (components dev))
               then map fst (components dev)
               else map fst (components dev) @ [?k])"
        using s dev' kept by (simp add: AList.update_conv' AList.update_keys)
      then show ?thesis
        unfolding Pair Inr prod.case sum.case
        by (intro exI [of _ m] exI [of _ s] exI [of _ ?new])
    qed
  qed
qed

text \<open>
  A Device that holds a bat with id 0 and an inverter with id 2 is given a counter with
  id 0: the call returns, the keys are as before, the entry under \<open>component0\<close> is the
  counter, and the inverter is where it was.
\<close>

theorem component_keys_by_id_witness:
  "add_component example_env
     \<lparr>components =
        [(''component0'', example_component BatterXBat ''bat'' 0),
         (''component2'', example_component BatterXInverter ''inverter'' 2)],
      device_config = example_config\<rparr>
     (AsObject \<lparr>setup_name = [], setup_type = ''counter'', setup_id = Some 0\<rparr>) =
     (Inr (),
      \<lparr>components =
         [(''component0'', example_component BatterXCounter ''counter'' 0),
          (''component2'', example_component BatterXInverter ''inverter'' 2)],
       device_config = example_config\<rparr>)
   \<and> map fst (components (snd (add_component example_env
        \<lparr>components =
           [(''component0'', example_component BatterXBat ''bat'' 0),
            (''component2'', example_component BatterXInverter ''inverter'' 2)],
         device_config = example_config\<rparr>
        (AsObject \<lparr>setup_name = [], setup_type = ''counter'', setup_id = Some 0\<rparr>)))) =
      [''component0'', ''component2'']
   \<and> map_of (components (snd (add_component example_env
        \<lparr>components =
           [(''component0'', example_component BatterXBat ''bat'' 0),
            (''component2'', example_component BatterXInverter ''inverter'' 2)],
         device_config = example_config\<rparr>
        (AsObject \<lparr>setup_name = [], setup_type = ''counter'', setup_id = Some 0\<rparr>))))
        ''component2'' =
      Some (example_component BatterXInverter ''inverter'' 2)"
proof -
  let ?dev = "\<lparr>components =
        [(''component0'', example_component BatterXBat ''bat'' 0),
         (''component2'', example_component BatterXInverter ''inverter'' 2)],
      device_config = example_config\<rparr>"
  let ?cfg = "AsObject \<lparr>setup_name = [], setup_type = ''counter'', setup_id = Some 0\<rparr>"
  have run: "add_component example_env ?dev ?cfg =
     (Inr (),
      \<lparr>components =
         [(''component0'', example_component BatterXCounter ''counter'' 0),
          (''component2'', example_component BatterXInverter ''inverter'' 2)],
       device_config = example_config\<rparr>)"
    by (simp add: add_component_def lookup_tag_def COMPONENT_TYPE_TO_MODULE_def
        COMPONENT_TYPE_TO_CLASS_def example_env_def example_component_def example_config_def
        str_int_def digits.simps digit_char_def)
  have same: "dataclass_from_dict example_env m ?cfg = Inr s \<Longrightarrow>
      s = \<lparr>setup_name = [], setup_type = ''counter'', setup_id = Some 0\<rparr>" for m s
    by (auto simp: example_env_def)
  have key: "''component'' @ str (Some 0) = ''component0''"
    by (simp add: str_int_def digits.simps digit_char_def)
  from component_keys_by_id [of example_env example_config "[]" None None ?dev ?cfg]
  have "\<exists>m s. dataclass_from_dict example_env m ?cfg = Inr s
      \<and> (\<forall>k. k \<noteq> ''component'' @ str (setup_id s) \<longrightarrow>
            map_of (components (snd (add_component example_env ?dev ?cfg))) k =
            map_of (components ?dev) k)
      \<and> map fst (components (snd (add_component example_env ?dev ?cfg))) =
         (if ''component'' @ str (setup_id s) \<in> set (map fst (components ?dev))
          then map fst (components ?dev)
          else map fst (components ?dev) @ [''component'' @ str (setup_id s)])"
    unfolding run by (simp only: prod.case sum.case snd_conv) blast
  then obtain m s where s: "dataclass_from_dict example_env m ?cfg = Inr s"
    and others: "\<forall>k. k \<noteq> ''component'' @ str (setup_id s) \<longrightarrow>
            map_of (components (snd (add_component example_env ?dev ?cfg))) k =
            map_of (components ?dev) k"
    and keys: "map fst (components (snd (add_component example_env ?dev ?cfg))) =
         (if ''component'' @ str (setup_id s) \<in> set (map fst (components ?dev))
          then map fst (components ?dev)
          else map fst (components ?dev) @ [''component'' @ str (setup_id s)])"
    by blast
  from same [OF s] have k: "''component'' @ str (setup_id s) = ''component0''"
    using key by simp
  from keys have
    "map fst (components (snd (add_component example_env ?dev ?cfg))) =
       [''component0'', ''component2'']"
    unfolding k by simp
  moreover from others have
    "map_of (components (snd (add_component example_env ?dev ?cfg))) ''component2'' =
       Some (example_component BatterXInverter ''inverter'' 2)"
    unfolding k by simp
  ultimately show ?thesis
    using run by simp
qed

text \<open>
  C6 as stated fails: a bat with id 0 and then a counter with id 0 are added to a new
  Device. They do not coexist: the collection has one entry, the counter.
\<close>

theorem same_id_other_type_counterexample:
  "components (add_components example_env \<lparr>components = [], device_config = example_config\<rparr>
     [AsDict [''type'' \<mapsto> FStr ''bat'', ''id'' \<mapsto> FInt 0],
      AsDict [''type'' \<mapsto> FStr ''counter'', ''id'' \<mapsto> FInt 0]]) =
   [(''component0'', example_component BatterXCounter ''counter'' 0)]"
  by (simp add: add_components_def add_component_def lookup_tag_def COMPONENT_TYPE_TO_MODULE_def
      COMPONENT_TYPE_TO_CLASS_def example_env_def example_component_def example_config_def
      str_int_def digits.simps digit_char_def)

end
